theory Spec2Isabelle
  imports Main "HOL-Library.Word"
begin

section \<open>Go values shared by the srpc and rpcstream packages\<close>

type_synonym byte = "8 word"
type_synonym bytes = "byte list"

text \<open>
  The package-level error values of srpc (declared in a file that is not part of the
  sources at hand) are kept apart from errors built at the place of the failure. Their
  message text is a parameter wherever a message is needed.
\<close>

datatype sentinel = ErrCompleted | ErrUnimplemented | ErrUnrecognizedPacket

datatype error =
    Sentinel sentinel
  | ErrorsNew string
  | ContextCanceled
  | IoEOF
  | ErrorsWrap error string

text \<open>\<^verbatim>\<open>Error() string\<close> of a Go error.\<close>

fun Error :: "(sentinel \<Rightarrow> string) \<Rightarrow> error \<Rightarrow> string" where
  "Error txt (Sentinel s) = txt s"
| "Error txt (ErrorsNew m) = m"
| "Error txt ContextCanceled = ''context canceled''"
| "Error txt IoEOF = ''EOF''"
| "Error txt (ErrorsWrap e m) = m @ '': '' @ Error txt e"

text \<open>A call either returns a value or never returns (it waits on a channel or a stream).\<close>

datatype 'a outcome = Returns 'a | Blocks

subsection \<open>Buffered channels\<close>

record 'a chan =
  ch_buf :: "'a list"
  ch_cap :: nat
  ch_closed :: bool

definition make_chan :: "nat \<Rightarrow> 'a chan" where
  "make_chan n = \<lparr>ch_buf = [], ch_cap = n, ch_closed = False\<rparr>"

definition chan_ready :: "'a chan \<Rightarrow> bool" where
  "chan_ready ch = (length (ch_buf ch) < ch_cap ch)"

definition chan_put :: "'a chan \<Rightarrow> 'a \<Rightarrow> 'a chan" where
  "chan_put ch x = ch\<lparr>ch_buf := ch_buf ch @ [x]\<rparr>"

definition chan_close :: "'a chan \<Rightarrow> 'a chan" where
  "chan_close ch = ch\<lparr>ch_closed := True\<rparr>"

section \<open>The wire packets (srpc)\<close>

record CallStart =
  cs_RpcService :: string
  cs_RpcMethod :: string
  cs_Data :: bytes
  cs_DataIsZero :: bool

record CallData =
  cd_Data :: bytes
  cd_DataIsZero :: bool
  cd_Complete :: bool
  cd_Error :: string

datatype Packet =
    Packet_CallStart CallStart
  | Packet_CallData CallData
  | Packet_CallCancel bool
  | Packet_CallStartResp
  | Packet_nil

text \<open>
  Modelled from the spec: NewCallDataPacket is declared in a file of package srpc that is
  not part of the sources at hand. The fields follow the spec (a terminal
  \<^verbatim>\<open>CallData{complete=true, error=handlerErr?}\<close>, and
  \<^verbatim>\<open>dataIsZero\<close> set for a payload that is present and empty), as
  \<^verbatim>\<open>writeCallData\<close> of the TypeScript side builds them. A nil slice is
  \<open>None\<close>.
\<close>

definition NewCallDataPacket ::
  "(sentinel \<Rightarrow> string) \<Rightarrow> bytes option \<Rightarrow> bool \<Rightarrow> error option \<Rightarrow> Packet" where
  "NewCallDataPacket txt data complete err =
     Packet_CallData
       \<lparr>cd_Data = (case data of None \<Rightarrow> [] | Some d \<Rightarrow> d),
        cd_DataIsZero = (case data of None \<Rightarrow> False | Some d \<Rightarrow> length d = 0),
        cd_Complete = complete,
        cd_Error = (case err of None \<Rightarrow> [] | Some e \<Rightarrow> Error txt e)\<rparr>"

section \<open>ServerRPC (srpc/server-rpc.go)\<close>

text \<open>
  What a ServerRPC does to the outside: packets handed to the writer, the cancellation of
  its context, the closing of the writer, and the goroutine it starts.
\<close>

datatype effect =
    Writer_MsgSend Packet
  | CtxCancel
  | Writer_Close
  | Go_invokeRPC

text \<open>
  The struct. \<open>ctxDone\<close> is the state of \<^verbatim>\<open>ctx\<close>; the writer and
  \<^verbatim>\<open>ctxCancel\<close> are seen through the log \<open>effects\<close>; the mux is an
  argument of \<open>invokeRPC\<close>. The field \<open>method_name\<close> is the field
  \<^verbatim>\<open>method\<close> of the struct.
\<close>

record ServerRPC =
  ctxDone :: bool
  service :: string
  method_name :: string
  dataCh :: "bytes chan"
  dataChClosed :: bool
  clientErr :: "error option"
  effects :: "effect list"

definition NewServerRPC :: "bool \<Rightarrow> ServerRPC" where
  "NewServerRPC parentDone =
     \<lparr>ctxDone = parentDone, service = [], method_name = [], dataCh = make_chan 5,
      dataChClosed = False, clientErr = None, effects = []\<rparr>"

definition emit :: "effect \<Rightarrow> ServerRPC \<Rightarrow> ServerRPC" where
  "emit e r = r\<lparr>effects := effects r @ [e]\<rparr>"

definition HandleCallStart :: "ServerRPC \<Rightarrow> CallStart \<Rightarrow> error option \<times> ServerRPC" where
  "HandleCallStart r pkt =
     (if method_name r \<noteq> [] \<or> service r \<noteq> [] then
        (Some (ErrorsNew ''call start must be sent only once''), r)
      else if dataChClosed r then (Some (Sentinel ErrCompleted), r)
      else
        let r1 = r\<lparr>method_name := cs_RpcMethod pkt, service := cs_RpcService pkt\<rparr>;
            data = cs_Data pkt
        in if length data \<noteq> 0 then
             (if chan_ready (dataCh r1)
              then (None, emit Go_invokeRPC (r1\<lparr>dataCh := chan_put (dataCh r1) data\<rparr>))
              else (Some (ErrorsNew ''data channel was full, expected empty''), r1))
           else (None, emit Go_invokeRPC r1))"

text \<open>
  The blocking \<^verbatim>\<open>select\<close> of HandleCallData over \<^verbatim>\<open>ctx.Done()\<close> and
  the send on \<^verbatim>\<open>dataCh\<close>. When both cases are ready the Go runtime chooses;
  \<open>pickDone\<close> is its choice.
\<close>

datatype select_result = CtxIsDone | Sent ServerRPC | WouldBlock

definition select_send :: "bool \<Rightarrow> ServerRPC \<Rightarrow> bytes \<Rightarrow> select_result" where
  "select_send pickDone r data =
     (if ctxDone r \<and> chan_ready (dataCh r) then
        (if pickDone then CtxIsDone else Sent (r\<lparr>dataCh := chan_put (dataCh r) data\<rparr>))
      else if ctxDone r then CtxIsDone
      else if chan_ready (dataCh r) then Sent (r\<lparr>dataCh := chan_put (dataCh r) data\<rparr>)
      else WouldBlock)"

definition HandleCallData ::
  "bool \<Rightarrow> ServerRPC \<Rightarrow> CallData \<Rightarrow> (error option \<times> ServerRPC) outcome" where
  "HandleCallData pickDone r pkt =
     (if dataChClosed r then Returns (Some (Sentinel ErrCompleted), r)
      else
        case (if length (cd_Data pkt) \<noteq> 0 then select_send pickDone r (cd_Data pkt)
              else Sent r) of
          WouldBlock \<Rightarrow> Blocks
        | CtxIsDone \<Rightarrow> Returns (Some ContextCanceled, r)
        | Sent r1 \<Rightarrow>
            let err = cd_Error pkt;
                complete = (if length err \<noteq> 0 then True else cd_Complete pkt);
                r2 = (if length err \<noteq> 0 then r1\<lparr>clientErr := Some (ErrorsNew err)\<rparr> else r1);
                r3 = (if complete
                      then r2\<lparr>dataChClosed := True, dataCh := chan_close (dataCh r2)\<rparr>
                      else r2)
            in Returns (None, r3))"

definition HandleCallStartResp :: "ServerRPC \<Rightarrow> error option \<times> ServerRPC" where
  "HandleCallStartResp r =
     (Some (ErrorsWrap (Sentinel ErrUnrecognizedPacket) ''call start resp packet unexpected''), r)"

text \<open>
  \<^verbatim>\<open>Packet.Validate\<close> is not part of the sources at hand; HandlePacket takes it
  as the argument \<open>validate\<close>.
\<close>

definition HandlePacket ::
  "(Packet \<Rightarrow> error option) \<Rightarrow> bool \<Rightarrow> ServerRPC \<Rightarrow> Packet \<Rightarrow> (error option \<times> ServerRPC) outcome" where
  "HandlePacket validate pickDone r msg =
     (case validate msg of
        Some err \<Rightarrow> Returns (Some err, r)
      | None \<Rightarrow>
          (case msg of
             Packet_CallStart b \<Rightarrow> Returns (HandleCallStart r b)
           | Packet_CallData b \<Rightarrow> HandleCallData pickDone r b
           | Packet_CallStartResp \<Rightarrow> Returns (HandleCallStartResp r)
           | _ \<Rightarrow> Returns (None, r)))"

text \<open>
  The mux is an interface: \<^verbatim>\<open>InvokeMethod\<close> runs the handler, which works on
  the stream built from the context, the writer and \<^verbatim>\<open>dataCh\<close>, and may never
  return.
\<close>

type_synonym Mux = "string \<Rightarrow> string \<Rightarrow> ServerRPC \<Rightarrow> ((bool \<times> error option) \<times> ServerRPC) outcome"

definition invokeRPC :: "(sentinel \<Rightarrow> string) \<Rightarrow> Mux \<Rightarrow> ServerRPC \<Rightarrow> ServerRPC outcome" where
  "invokeRPC txt mux r =
     (let serviceID = service r; methodID = method_name r
      in case mux serviceID methodID r of
           Blocks \<Rightarrow> Blocks
         | Returns ((ok, err), r1) \<Rightarrow>
             let err1 = (if err = None \<and> \<not> ok then Some (Sentinel ErrUnimplemented) else err);
                 outPkt = NewCallDataPacket txt None True err1;
                 r2 = emit (Writer_MsgSend outPkt) r1;
                 r3 = emit CtxCancel (r2\<lparr>ctxDone := True\<rparr>);
                 r4 = emit Writer_Close r3
             in Returns r4)"

definition ServerRPC_Close :: "ServerRPC \<Rightarrow> ServerRPC" where
  "ServerRPC_Close r =
     (let r1 = emit CtxCancel (r\<lparr>ctxDone := True\<rparr>)
      in if service r1 = [] then emit Writer_Close r1 else r1)"

text \<open>
  Packets handed to HandlePacket one after the other (it is not concurrency safe, so each
  call returns before the next starts; a call that never returns ends the run). The
  caller's reaction to an error is not part of the sources at hand: the run goes on,
  which covers a caller that stops as well.
\<close>

fun feed :: "(Packet \<Rightarrow> error option) \<Rightarrow> ServerRPC \<Rightarrow> (bool \<times> Packet) list \<Rightarrow> ServerRPC" where
  "feed validate r [] = r"
| "feed validate r ((pickDone, msg) # rest) =
     (case HandlePacket validate pickDone r msg of
        Blocks \<Rightarrow> r
      | Returns (err, r1) \<Rightarrow> feed validate r1 rest)"

definition spawned :: "ServerRPC \<Rightarrow> nat" where
  "spawned r = length (filter (\<lambda>e. e = Go_invokeRPC) (effects r))"

section \<open>MsgStream and RawMessage (srpc/msg-stream.go, srpc/message.go)\<close>

text \<open>
  MsgStreamRw is an interface. Its two methods are scripted: \<open>rw_readq\<close> holds what the
  coming calls of ReadOne return (none left: the call waits), \<open>rw_writeq\<close> what the
  coming calls of WriteCallData return (none left: success), and \<open>rw_written\<close> logs the
  arguments of every call of WriteCallData. A nil slice and an empty one are both \<open>[]\<close>:
  the Go code only takes their length.
\<close>

record MsgStreamRw =
  rw_readq :: "(error + bytes) list"
  rw_writeq :: "error option list"
  rw_written :: "(bytes \<times> bool \<times> error option) list"

definition ReadOne :: "MsgStreamRw \<Rightarrow> ((error + bytes) \<times> MsgStreamRw) outcome" where
  "ReadOne rw =
     (case rw_readq rw of
        [] \<Rightarrow> Blocks
      | x # xs \<Rightarrow> Returns (x, rw\<lparr>rw_readq := xs\<rparr>))"

definition WriteCallData ::
  "MsgStreamRw \<Rightarrow> bytes \<Rightarrow> bool \<Rightarrow> error option \<Rightarrow> error option \<times> MsgStreamRw" where
  "WriteCallData rw data complete err =
     (let rw1 = rw\<lparr>rw_written := rw_written rw @ [(data, complete, err)]\<rparr>
      in case rw_writeq rw1 of
           [] \<Rightarrow> (None, rw1)
         | x # xs \<Rightarrow> (x, rw1\<lparr>rw_writeq := xs\<rparr>))"

text \<open>
  The struct: \<open>ms_closeCb\<close> tells whether \<^verbatim>\<open>closeCb\<close> is non-nil, and
  \<open>ms_closeCbCalls\<close> counts its invocations.
\<close>

record MsgStream =
  ms_ctxDone :: bool
  ms_rw :: MsgStreamRw
  ms_closeCb :: bool
  ms_closeCbCalls :: nat

definition NewMsgStream :: "bool \<Rightarrow> MsgStreamRw \<Rightarrow> bool \<Rightarrow> MsgStream" where
  "NewMsgStream ctx rw closeCb =
     \<lparr>ms_ctxDone = ctx, ms_rw = rw, ms_closeCb = closeCb, ms_closeCbCalls = 0\<rparr>"

record RawMessage =
  rm_data :: bytes
  rm_copy :: bool

definition NewRawMessage :: "bytes \<Rightarrow> bool \<Rightarrow> RawMessage" where
  "NewRawMessage d c = \<lparr>rm_data = d, rm_copy = c\<rparr>"

text \<open>
  With \<^verbatim>\<open>copy\<close> set the bytes are copied, otherwise the slice is retained: the
  message holds the same bytes either way.
\<close>

definition SetData :: "RawMessage \<Rightarrow> bytes \<Rightarrow> RawMessage" where
  "SetData m d = (if rm_copy m then m\<lparr>rm_data := d\<rparr> else m\<lparr>rm_data := d\<rparr>)"

definition MarshalVT :: "RawMessage \<Rightarrow> error + bytes" where
  "MarshalVT m = (if \<not> rm_copy m then Inr (rm_data m) else Inr (rm_data m))"

definition UnmarshalVT :: "RawMessage \<Rightarrow> bytes \<Rightarrow> error option \<times> RawMessage" where
  "UnmarshalVT m d = (None, SetData m d)"

text \<open>MsgSend and MsgRecv take the two methods of the Message interface as arguments.\<close>

definition MsgSend :: "('m \<Rightarrow> error + bytes) \<Rightarrow> MsgStream \<Rightarrow> 'm \<Rightarrow> error option \<times> MsgStream" where
  "MsgSend marshal r msg =
     (if ms_ctxDone r then (Some ContextCanceled, r)
      else case marshal msg of
             Inl err \<Rightarrow> (Some err, r)
           | Inr msgData \<Rightarrow>
               (let (e, rw1) = WriteCallData (ms_rw r) msgData False None
                in (e, r\<lparr>ms_rw := rw1\<rparr>)))"

definition MsgRecv ::
  "('m \<Rightarrow> bytes \<Rightarrow> error option \<times> 'm) \<Rightarrow> MsgStream \<Rightarrow> 'm \<Rightarrow> (error option \<times> 'm \<times> MsgStream) outcome" where
  "MsgRecv unmarshal r msg =
     (case ReadOne (ms_rw r) of
        Blocks \<Rightarrow> Blocks
      | Returns (Inl err, rw1) \<Rightarrow> Returns (Some err, msg, r\<lparr>ms_rw := rw1\<rparr>)
      | Returns (Inr data, rw1) \<Rightarrow>
          (let (e, msg1) = unmarshal msg data in Returns (e, msg1, r\<lparr>ms_rw := rw1\<rparr>)))"

definition CloseSend :: "MsgStream \<Rightarrow> error option \<times> MsgStream" where
  "CloseSend r =
     (let (e, rw1) = WriteCallData (ms_rw r) [] True None in (e, r\<lparr>ms_rw := rw1\<rparr>))"

definition MsgStream_Close :: "MsgStream \<Rightarrow> error option \<times> MsgStream" where
  "MsgStream_Close r =
     (let (e, r1) = CloseSend r;
          r2 = (if ms_closeCb r1 then r1\<lparr>ms_closeCbCalls := Suc (ms_closeCbCalls r1)\<rparr> else r1)
      in (None, r2))"

text \<open>Close called \<open>k\<close> times in a row.\<close>

fun Close_times :: "nat \<Rightarrow> MsgStream \<Rightarrow> MsgStream" where
  "Close_times 0 r = r"
| "Close_times (Suc k) r = Close_times k (snd (MsgStream_Close r))"

section \<open>CommonRPC of the TypeScript side (the second part of srpc/msg-stream.go)\<close>

text \<open>
  An absent argument or field (\<^verbatim>\<open>undefined\<close>) is \<open>None\<close>. The calls on
  \<^verbatim>\<open>_rpcDataSource\<close> are returned as a list; a thrown Error is \<open>Inl\<close> of its
  message.
\<close>

record CommonRPC =
  ts_service :: "string option"
  ts_method :: "string option"

record PartialCallData =
  pcd_data :: "bytes option"
  pcd_dataIsZero :: "bool option"
  pcd_complete :: "bool option"
  pcd_error :: "string option"

datatype rpcDataEvent = Push bytes | End "string option"

definition truthy :: "bool option \<Rightarrow> bool" where
  "truthy b = (case b of None \<Rightarrow> False | Some v \<Rightarrow> v)"

definition truthy_str :: "string option \<Rightarrow> bool" where
  "truthy_str s = (case s of None \<Rightarrow> False | Some v \<Rightarrow> length v \<noteq> 0)"

definition writeCallData :: "bytes option \<Rightarrow> bool option \<Rightarrow> string option \<Rightarrow> CallData" where
  "writeCallData data complete err =
     \<lparr>cd_Data = (case data of None \<Rightarrow> [] | Some d \<Rightarrow> d),
      cd_DataIsZero = (case data of None \<Rightarrow> False | Some d \<Rightarrow> length d = 0),
      cd_Complete = (if truthy complete then True else False),
      cd_Error = (if truthy_str err then (case err of None \<Rightarrow> [] | Some e \<Rightarrow> e) else [])\<rparr>"

definition pushRpcData :: "bytes option \<Rightarrow> bool option \<Rightarrow> rpcDataEvent list" where
  "pushRpcData data dataIsZero =
     (if truthy dataIsZero then
        (case data of
           None \<Rightarrow> [Push []]
         | Some d \<Rightarrow> if length d \<noteq> 0 then [Push []] else [Push d])
      else
        (case data of
           None \<Rightarrow> []
         | Some d \<Rightarrow> if length d = 0 then [] else [Push d]))"

definition handleCallData :: "CommonRPC \<Rightarrow> PartialCallData \<Rightarrow> string + rpcDataEvent list" where
  "handleCallData c packet =
     (if \<not> truthy_str (ts_service c) \<or> \<not> truthy_str (ts_method c) then
        Inl ''call start must be sent before call data''
      else
        Inr (pushRpcData (pcd_data packet) (pcd_dataIsZero packet) @
             (if truthy_str (pcd_error packet) then [End (pcd_error packet)]
              else if truthy (pcd_complete packet) then [End None]
              else [])))"

section \<open>The nested stream tunnel (package rpcstream)\<close>

datatype RpcStreamInit = RpcStreamInit (ComponentId: string)

datatype RpcAck = RpcAck (AckError: string)

text \<open>
  The body of a RpcStreamPacket. The Init and Ack bodies hold a pointer, which may be nil
  (\<open>None\<close>); a packet with no body is \<open>RpcStreamPacket_nil\<close>.
\<close>

datatype RpcStreamPacket =
    RpcStreamPacket_Init "RpcStreamInit option"
  | RpcStreamPacket_Ack "RpcAck option"
  | RpcStreamPacket_Data bytes
  | RpcStreamPacket_nil

text \<open>The generated getters, which accept a nil receiver.\<close>

definition GetAck :: "RpcStreamPacket \<Rightarrow> RpcAck option" where
  "GetAck pkt = (case pkt of RpcStreamPacket_Ack a \<Rightarrow> a | _ \<Rightarrow> None)"

definition GetError :: "RpcAck option \<Rightarrow> string" where
  "GetError a = (case a of None \<Rightarrow> [] | Some x \<Rightarrow> AckError x)"

definition GetData :: "RpcStreamPacket \<Rightarrow> bytes" where
  "GetData pkt = (case pkt of RpcStreamPacket_Data d \<Rightarrow> d | _ \<Rightarrow> [])"

text \<open>
  RpcStream is an interface. Its methods are scripted: \<open>st_recvq\<close> holds what the coming
  calls of Recv return (none left: the call waits), \<open>st_sendq\<close> what the coming calls of
  Send return (none left: success), \<open>st_closeErr\<close> what Close returns; \<open>st_sent\<close> logs
  the packets handed to Send and \<open>st_closed\<close> counts the calls of Close.
\<close>

record RpcStream =
  st_recvq :: "(error + RpcStreamPacket) list"
  st_sendq :: "error option list"
  st_closeErr :: "error option"
  st_sent :: "RpcStreamPacket list"
  st_closed :: nat

definition Send :: "RpcStreamPacket \<Rightarrow> RpcStream \<Rightarrow> error option \<times> RpcStream" where
  "Send pkt s =
     (let s1 = s\<lparr>st_sent := st_sent s @ [pkt]\<rparr>
      in case st_sendq s1 of
           [] \<Rightarrow> (None, s1)
         | x # xs \<Rightarrow> (x, s1\<lparr>st_sendq := xs\<rparr>))"

definition Recv :: "RpcStream \<Rightarrow> ((error + RpcStreamPacket) \<times> RpcStream) outcome" where
  "Recv s =
     (case st_recvq s of
        [] \<Rightarrow> Blocks
      | x # xs \<Rightarrow> Returns (x, s\<lparr>st_recvq := xs\<rparr>))"

definition RpcStream_Close :: "RpcStream \<Rightarrow> error option \<times> RpcStream" where
  "RpcStream_Close s = (st_closeErr s, s\<lparr>st_closed := Suc (st_closed s)\<rparr>)"

record RpcStreamReadWriter =
  rw_stream :: RpcStream
  rw_buf :: bytes

definition NewRpcStreamReadWriter :: "RpcStream \<Rightarrow> RpcStreamReadWriter" where
  "NewRpcStreamReadWriter s = \<lparr>rw_stream = s, rw_buf = []\<rparr>"

text \<open>
  OpenRpcStream returns \<^verbatim>\<open>(nil, err)\<close> or \<^verbatim>\<open>(rw, nil)\<close>. With the error
  comes the last state of the stream that \<^verbatim>\<open>rpcCaller\<close> opened, if it opened one.
\<close>

datatype open_result = OpenFailed error "RpcStream option" | Opened RpcStreamReadWriter

definition OpenRpcStream :: "(error + RpcStream) \<Rightarrow> string \<Rightarrow> bool \<Rightarrow> open_result outcome" where
  "OpenRpcStream rpcCaller componentID waitAck =
     (case rpcCaller of
        Inl err \<Rightarrow> Returns (OpenFailed err None)
      | Inr rpcStream \<Rightarrow>
          (case Send (RpcStreamPacket_Init (Some (RpcStreamInit componentID))) rpcStream of
             (Some err, s1) \<Rightarrow> Returns (OpenFailed err (Some (snd (RpcStream_Close s1))))
           | (None, s1) \<Rightarrow>
               if waitAck then
                 (case Recv s1 of
                    Blocks \<Rightarrow> Blocks
                  | Returns (res, s2) \<Rightarrow>
                      (let err =
                         (case res of
                            Inl e \<Rightarrow> Some e
                          | Inr pkt \<Rightarrow>
                              (case pkt of
                                 RpcStreamPacket_Ack b \<Rightarrow>
                                   (let errStr = GetError b
                                    in if errStr \<noteq> [] then Some (ErrorsNew (''remote: '' @ errStr))
                                       else None)
                               | _ \<Rightarrow> Some (ErrorsNew ''expected ack packet'')))
                       in case err of
                            Some e \<Rightarrow> Returns (OpenFailed e (Some (snd (RpcStream_Close s2))))
                          | None \<Rightarrow> Returns (Opened (NewRpcStreamReadWriter s2))))
               else Returns (Opened (NewRpcStreamReadWriter s1))))"

text \<open>
  What the getter returns: the mux (nil is \<open>None\<close>), whether the release function is
  non-nil, and the error.
\<close>

record 'm getter_result =
  g_mux :: "'m option"
  g_muxRel :: bool
  g_err :: "error option"

text \<open>
  What HandleRpcStream returns, with the last state of the stream and the number of calls
  of the release function made by the time it returns (the call is deferred).
\<close>

record handle_result =
  h_err :: "error option"
  h_stream :: RpcStream
  h_released :: nat

text \<open>
  The nested session (the packet read/writer over the tunnel, the ServerRPC, its read
  pump and \<^verbatim>\<open>serverRPC.Wait\<close>) is not part of the sources at hand: it is the
  argument \<open>session\<close>, which gets the mux and the stream and may never return.
\<close>

definition HandleRpcStream ::
  "(sentinel \<Rightarrow> string) \<Rightarrow> (string \<Rightarrow> 'm getter_result) \<Rightarrow>
   ('m option \<Rightarrow> RpcStream \<Rightarrow> (error option \<times> RpcStream) outcome) \<Rightarrow>
   RpcStream \<Rightarrow> handle_result outcome" where
  "HandleRpcStream txt getter session stream =
     (case Recv stream of
        Blocks \<Rightarrow> Blocks
      | Returns (Inl err, s1) \<Rightarrow> Returns \<lparr>h_err = Some err, h_stream = s1, h_released = 0\<rparr>
      | Returns (Inr initPkt, s1) \<Rightarrow>
          (case initPkt of
             RpcStreamPacket_Init (Some init) \<Rightarrow>
               (let componentID = ComponentId init
                in if componentID = [] then
                     Returns \<lparr>h_err = Some (ErrorsNew ''invalid init packet: empty component id''),
                              h_stream = s1, h_released = 0\<rparr>
                   else
                     (let g = getter componentID;
                          err = (if g_err g = None \<and> g_mux g = None
                                 then Some (ErrorsNew ''no server for that component'')
                                 else g_err g);
                          rel = (if g_mux g \<noteq> None \<and> g_muxRel g then 1 else 0);
                          errStr = (case err of None \<Rightarrow> [] | Some e \<Rightarrow> Error txt e);
                          (sendErr, s2) = Send (RpcStreamPacket_Ack (Some (RpcAck errStr))) s1
                      in if err \<noteq> None then
                           Returns \<lparr>h_err = err, h_stream = s2, h_released = rel\<rparr>
                         else if sendErr \<noteq> None then
                           Returns \<lparr>h_err = sendErr, h_stream = s2, h_released = rel\<rparr>
                         else
                           (case session (g_mux g) s2 of
                              Blocks \<Rightarrow> Blocks
                            | Returns (werr, s3) \<Rightarrow>
                                Returns \<lparr>h_err = werr, h_stream = s3, h_released = rel\<rparr>)))
           | _ \<Rightarrow>
               Returns \<lparr>h_err = Some (ErrorsNew ''expected init packet''),
                        h_stream = s1, h_released = 0\<rparr>))"

definition Write :: "RpcStreamReadWriter \<Rightarrow> bytes \<Rightarrow> (nat \<times> error option) \<times> RpcStreamReadWriter" where
  "Write r p =
     (if length p = 0 then ((0, None), r)
      else case Send (RpcStreamPacket_Data p) (rw_stream r) of
             (Some err, s1) \<Rightarrow> ((0, Some err), r\<lparr>rw_stream := s1\<rparr>)
           | (None, s1) \<Rightarrow> ((length p, None), r\<lparr>rw_stream := s1\<rparr>))"

text \<open>
  \<^verbatim>\<open>copy(p[n:], src)\<close>: as many bytes of \<open>src\<close> as fit replace the bytes of \<open>p\<close>
  from \<open>n\<close> on.
\<close>

definition copy_at :: "bytes \<Rightarrow> nat \<Rightarrow> bytes \<Rightarrow> bytes" where
  "copy_at p n src =
     (let k = min (length src) (length (drop n p))
      in take n p @ take k src @ drop (n + k) p)"

text \<open>
  The loop of Read. \<open>p\<close> is the caller's slice and \<open>n\<close> the count so far;
  \<^verbatim>\<open>readBuf\<close> is \<open>drop n p\<close>. The results are \<open>n\<close>, the error, the slice as the
  call leaves it, and the read/writer. \<^verbatim>\<open>err\<close> is nil at every test of the loop
  condition: the buffer is read only when it holds bytes, and a failed Recv leaves the
  loop at once.
\<close>

function Read_loop ::
  "RpcStreamReadWriter \<Rightarrow> bytes \<Rightarrow> nat \<Rightarrow> (nat \<times> error option \<times> bytes \<times> RpcStreamReadWriter) outcome" where
  "Read_loop r p n =
     (if length (drop n p) = 0 then Returns (n, None, p, r)
      else if length (rw_buf r) \<noteq> 0 then
        (let rn = min (length (rw_buf r)) (length (drop n p))
         in Read_loop (r\<lparr>rw_buf := drop rn (rw_buf r)\<rparr>) (copy_at p n (rw_buf r)) (n + rn))
      else if n \<noteq> 0 then Returns (n, None, p, r)
      else
        (case Recv (rw_stream r) of
           Blocks \<Rightarrow> Blocks
         | Returns (Inl err, s1) \<Rightarrow> Returns (n, Some err, p, r\<lparr>rw_stream := s1\<rparr>)
         | Returns (Inr pkt, s1) \<Rightarrow>
             (let errStr = GetError (GetAck pkt)
              in if errStr \<noteq> [] then Returns (n, Some (ErrorsNew errStr), p, r\<lparr>rw_stream := s1\<rparr>)
                 else
                   (let data = GetData pkt
                    in if length data = 0 then Read_loop (r\<lparr>rw_stream := s1\<rparr>) p n
                       else if length data > length (drop n p) then
                         (let rn = length (drop n p)
                          in Read_loop (r\<lparr>rw_stream := s1, rw_buf := rw_buf r @ drop rn data\<rparr>)
                               (copy_at p n data) (n + rn))
                       else
                         (let rn = length data
                          in Read_loop (r\<lparr>rw_stream := s1\<rparr>) (copy_at p n data) (n + rn))))))"
  by pat_completeness auto
termination
  apply (relation "measure (\<lambda>(r, p, n). length (st_recvq (rw_stream r)) + (length p - n))")
      apply (auto simp: Recv_def copy_at_def Let_def min_def split: list.splits)
  subgoal for r p n by (cases "rw_buf r") auto
  done

declare Read_loop.simps [simp del]

definition Read :: "RpcStreamReadWriter \<Rightarrow> bytes \<Rightarrow> (nat \<times> error option \<times> bytes \<times> RpcStreamReadWriter) outcome" where
  "Read r p = Read_loop r p 0"

definition RpcStreamReadWriter_Close :: "RpcStreamReadWriter \<Rightarrow> error option \<times> RpcStreamReadWriter" where
  "RpcStreamReadWriter_Close r =
     (let (e, s1) = RpcStream_Close (rw_stream r) in (e, r\<lparr>rw_stream := s1\<rparr>))"

section \<open>Properties of ServerRPC\<close>

lemma NewServerRPC_fresh:
  "service (NewServerRPC d) = [] \<and> method_name (NewServerRPC d) = [] \<and>
   \<not> dataChClosed (NewServerRPC d) \<and> ch_buf (dataCh (NewServerRPC d)) = [] \<and>
   ch_cap (dataCh (NewServerRPC d)) = 5"
  by (simp add: NewServerRPC_def make_chan_def)

lemma HandleCallStart_records:
  assumes "HandleCallStart r pkt = (None, r1)"
  shows "method_name r1 = cs_RpcMethod pkt \<and> service r1 = cs_RpcService pkt \<and>
         effects r1 = effects r @ [Go_invokeRPC]"
  using assms
  by (auto simp: HandleCallStart_def Let_def emit_def split: if_splits)

lemma HandleCallStart_room:
  assumes "chan_ready (dataCh r)"
  shows "fst (HandleCallStart r pkt) \<noteq> Some (ErrorsNew ''data channel was full, expected empty'')"
  using assms by (simp add: HandleCallStart_def Let_def)

lemma HandleCallData_keeps:
  assumes "HandleCallData pick r pkt = Returns (e, r1)"
  shows "method_name r1 = method_name r \<and> service r1 = service r \<and> effects r1 = effects r"
  using assms
  by (auto simp: HandleCallData_def select_send_def Let_def split: if_splits select_result.splits)

lemma HandleCallStart_started_once:
  assumes "method_name r = [] \<and> service r = [] \<longrightarrow> spawned r = 0" and "spawned r \<le> 1"
    and "cs_RpcMethod pkt \<noteq> [] \<or> cs_RpcService pkt \<noteq> []"
  shows "(method_name (snd (HandleCallStart r pkt)) = [] \<and> service (snd (HandleCallStart r pkt)) = []
            \<longrightarrow> spawned (snd (HandleCallStart r pkt)) = 0) \<and>
         spawned (snd (HandleCallStart r pkt)) \<le> 1"
  using assms
  by (auto simp: HandleCallStart_def Let_def emit_def spawned_def split: if_splits)

lemma HandlePacket_started_once:
  assumes v: "\<And>cs. validate (Packet_CallStart cs) = None \<Longrightarrow> cs_RpcMethod cs \<noteq> [] \<or> cs_RpcService cs \<noteq> []"
    and inv1: "method_name r = [] \<and> service r = [] \<longrightarrow> spawned r = 0"
    and inv2: "spawned r \<le> 1"
    and step: "HandlePacket validate pick r msg = Returns (e, r1)"
  shows "(method_name r1 = [] \<and> service r1 = [] \<longrightarrow> spawned r1 = 0) \<and> spawned r1 \<le> 1"
proof (cases "validate msg")
  case (Some err)
  with step inv1 inv2 show ?thesis by (simp add: HandlePacket_def)
next
  case None
  show ?thesis
  proof (cases msg)
    case (Packet_CallStart b)
    with None v have "cs_RpcMethod b \<noteq> [] \<or> cs_RpcService b \<noteq> []" by simp
    from HandleCallStart_started_once [OF inv1 inv2 this] step None Packet_CallStart
    show ?thesis by (auto simp: HandlePacket_def)
  next
    case (Packet_CallData b)
    with step None have "HandleCallData pick r b = Returns (e, r1)" by (simp add: HandlePacket_def)
    from HandleCallData_keeps [OF this] inv1 inv2 show ?thesis
      by (simp add: spawned_def)
  next
    case (Packet_CallCancel x)
    with step None inv1 inv2 show ?thesis by (simp add: HandlePacket_def)
  next
    case Packet_CallStartResp
    with step None inv1 inv2 show ?thesis by (simp add: HandlePacket_def HandleCallStartResp_def)
  next
    case Packet_nil
    with step None inv1 inv2 show ?thesis by (simp add: HandlePacket_def)
  qed
qed

lemma feed_started_once:
  assumes v: "\<And>cs. validate (Packet_CallStart cs) = None \<Longrightarrow> cs_RpcMethod cs \<noteq> [] \<or> cs_RpcService cs \<noteq> []"
  shows "(method_name r = [] \<and> service r = [] \<longrightarrow> spawned r = 0) \<Longrightarrow> spawned r \<le> 1 \<Longrightarrow>
         spawned (feed validate r ps) \<le> 1"
proof (induction ps arbitrary: r)
  case Nil
  then show ?case by simp
next
  case (Cons a ps)
  obtain pick msg where a: "a = (pick, msg)" by (cases a)
  show ?case
  proof (cases "HandlePacket validate pick r msg")
    case Blocks
    with a Cons.prems show ?thesis by simp
  next
    case (Returns x)
    obtain e r1 where x: "x = (e, r1)" by (cases x)
    from Returns x have "HandlePacket validate pick r msg = Returns (e, r1)" by simp
    from HandlePacket_started_once [OF v Cons.prems this]
    have "method_name r1 = [] \<and> service r1 = [] \<longrightarrow> spawned r1 = 0" and "spawned r1 \<le> 1"
      by simp_all
    from Cons.IH [OF this] Returns x a show ?thesis by simp
  qed
qed

lemma feed_spawns_at_most_once:
  assumes v: "\<And>cs. validate (Packet_CallStart cs) = None \<Longrightarrow> cs_RpcMethod cs \<noteq> [] \<or> cs_RpcService cs \<noteq> []"
  shows "spawned (feed validate (NewServerRPC d) ps) \<le> 1"
proof -
  have "spawned (NewServerRPC d) = 0"
    by (simp add: NewServerRPC_def spawned_def)
  then show ?thesis using feed_started_once [OF v, where r = "NewServerRPC d" and ps = ps]
    by simp
qed

lemma HandleCallStart_accepts_iff_spawns:
  "spawned (snd (HandleCallStart r pkt)) =
     (if fst (HandleCallStart r pkt) = None then Suc (spawned r) else spawned r)"
  by (simp add: HandleCallStart_def Let_def emit_def spawned_def)

lemma HandlePacket_started_keeps:
  assumes started: "method_name r \<noteq> [] \<or> service r \<noteq> []"
    and step: "HandlePacket validate pickDone r msg = Returns (e, r1)"
  shows "method_name r1 = method_name r \<and> service r1 = service r \<and> effects r1 = effects r"
proof (cases "validate msg")
  case (Some err)
  with step show ?thesis by (simp add: HandlePacket_def)
next
  case None
  show ?thesis
  proof (cases msg)
    case (Packet_CallStart b)
    with step None started show ?thesis by (auto simp: HandlePacket_def HandleCallStart_def)
  next
    case (Packet_CallData b)
    with step None have "HandleCallData pickDone r b = Returns (e, r1)"
      by (simp add: HandlePacket_def)
    then show ?thesis by (rule HandleCallData_keeps)
  next
    case (Packet_CallCancel x)
    with step None show ?thesis by (simp add: HandlePacket_def)
  next
    case Packet_CallStartResp
    with step None show ?thesis by (auto simp: HandlePacket_def HandleCallStartResp_def)
  next
    case Packet_nil
    with step None show ?thesis by (simp add: HandlePacket_def)
  qed
qed

lemma feed_started_keeps:
  "method_name r \<noteq> [] \<or> service r \<noteq> [] \<Longrightarrow>
   method_name (feed validate r ps) = method_name r \<and> service (feed validate r ps) = service r \<and>
   effects (feed validate r ps) = effects r"
proof (induction ps arbitrary: r)
  case Nil
  show ?case by simp
next
  case (Cons a ps)
  obtain pickDone msg where a: "a = (pickDone, msg)" by (cases a)
  show ?case
  proof (cases "HandlePacket validate pickDone r msg")
    case Blocks
    with a show ?thesis by simp
  next
    case (Returns x)
    obtain e r1 where x: "x = (e, r1)" by (cases x)
    from Returns x have step: "HandlePacket validate pickDone r msg = Returns (e, r1)" by simp
    note keep = HandlePacket_started_keeps [OF Cons.prems step]
    with Cons.prems have "method_name r1 \<noteq> [] \<or> service r1 \<noteq> []" by simp
    from Cons.IH [OF this] keep Returns x a show ?thesis by simp
  qed
qed

lemma HandlePacket_start_refused:
  assumes "method_name r \<noteq> [] \<or> service r \<noteq> []"
  shows "\<exists>e. HandlePacket validate pickDone r (Packet_CallStart cs) = Returns (Some e, r)"
  using assms by (cases "validate (Packet_CallStart cs)") (auto simp: HandlePacket_def HandleCallStart_def)

lemma feed_after_first_start:
  assumes v: "validate (Packet_CallStart cs) = None"
    and named: "cs_RpcMethod cs \<noteq> [] \<or> cs_RpcService cs \<noteq> []"
  shows "method_name (feed validate (NewServerRPC d) ((pickDone, Packet_CallStart cs) # rest)) = cs_RpcMethod cs \<and>
         service (feed validate (NewServerRPC d) ((pickDone, Packet_CallStart cs) # rest)) = cs_RpcService cs \<and>
         effects (feed validate (NewServerRPC d) ((pickDone, Packet_CallStart cs) # rest)) = [Go_invokeRPC]"
proof -
  let ?r1 = "snd (HandleCallStart (NewServerRPC d) cs)"
  have first: "method_name ?r1 = cs_RpcMethod cs \<and> service ?r1 = cs_RpcService cs \<and>
               effects ?r1 = [Go_invokeRPC]"
    by (simp add: HandleCallStart_def NewServerRPC_def make_chan_def chan_ready_def emit_def Let_def)
  with named have "method_name ?r1 \<noteq> [] \<or> service ?r1 \<noteq> []" by simp
  from feed_started_keeps [OF this, of validate rest] first
  have "method_name (feed validate ?r1 rest) = cs_RpcMethod cs \<and>
        service (feed validate ?r1 rest) = cs_RpcService cs \<and>
        effects (feed validate ?r1 rest) = [Go_invokeRPC]" by simp
  moreover have "feed validate (NewServerRPC d) ((pickDone, Packet_CallStart cs) # rest)
                 = feed validate ?r1 rest"
    using v by (simp add: HandlePacket_def split: prod.splits)
  ultimately show ?thesis by simp
qed

text \<open>
  Claim C2 (exactly one start). Two statements.
  \<^item> On a ServerRPC that has recorded a service name or a name of the called procedure
    that is not empty, which is what a handled CallStart leaves behind, HandleCallStart
    returns the error "call start must be sent only once" and leaves the ServerRPC as it
    was: nothing is enqueued and no further invokeRPC goroutine is started.
  \<^item> Over a stream: let the packets of a stream be handed to a new ServerRPC in their
    order, the first being a CallStart that passes the validation and names a service or
    a procedure. That CallStart is accepted, and whatever packets follow and however
    many of them are handled, exactly one invokeRPC goroutine has been started, the
    recorded names are those of the first CallStart, and a CallStart handled next is
    answered with an error and changes nothing. A goroutine is started exactly when a
    CallStart is accepted (lemma \<open>HandleCallStart_accepts_iff_spawns\<close>).
\<close>

theorem C2_exactly_one_start:
  "(method_name r \<noteq> [] \<or> service r \<noteq> [] \<longrightarrow>
      HandleCallStart r pkt = (Some (ErrorsNew ''call start must be sent only once''), r)) \<and>
   (validate (Packet_CallStart cs) = None \<and> (cs_RpcMethod cs \<noteq> [] \<or> cs_RpcService cs \<noteq> []) \<longrightarrow>
      fst (HandleCallStart (NewServerRPC d) cs) = None \<and>
      spawned (feed validate (NewServerRPC d) ((pickDone, Packet_CallStart cs) # rest)) = 1 \<and>
      method_name (feed validate (NewServerRPC d) ((pickDone, Packet_CallStart cs) # rest)) = cs_RpcMethod cs \<and>
      service (feed validate (NewServerRPC d) ((pickDone, Packet_CallStart cs) # rest)) = cs_RpcService cs \<and>
      (\<exists>e. HandlePacket validate pickNext
              (feed validate (NewServerRPC d) ((pickDone, Packet_CallStart cs) # rest))
              (Packet_CallStart cs2)
            = Returns (Some e, feed validate (NewServerRPC d) ((pickDone, Packet_CallStart cs) # rest))))"
proof (intro conjI impI)
  assume "method_name r \<noteq> [] \<or> service r \<noteq> []"
  then show "HandleCallStart r pkt = (Some (ErrorsNew ''call start must be sent only once''), r)"
    by (simp add: HandleCallStart_def)
next
  assume a: "validate (Packet_CallStart cs) = None \<and> (cs_RpcMethod cs \<noteq> [] \<or> cs_RpcService cs \<noteq> [])"
  let ?r = "feed validate (NewServerRPC d) ((pickDone, Packet_CallStart cs) # rest)"
  from a have v: "validate (Packet_CallStart cs) = None"
    and named: "cs_RpcMethod cs \<noteq> [] \<or> cs_RpcService cs \<noteq> []" by simp_all
  have after:
    "method_name ?r = cs_RpcMethod cs \<and> service ?r = cs_RpcService cs \<and> effects ?r = [Go_invokeRPC]"
    using v named by (rule feed_after_first_start)
  show "fst (HandleCallStart (NewServerRPC d) cs) = None"
    by (simp add: HandleCallStart_def NewServerRPC_def make_chan_def chan_ready_def Let_def)
  from after show "spawned ?r = 1" by (simp add: spawned_def)
  from after show "method_name ?r = cs_RpcMethod cs" by simp
  from after show "service ?r = cs_RpcService cs" by simp
  from after named have "method_name ?r \<noteq> [] \<or> service ?r \<noteq> []" by simp
  then show "\<exists>e. HandlePacket validate pickNext ?r (Packet_CallStart cs2) = Returns (Some e, ?r)"
    by (rule HandlePacket_start_refused)
qed

theorem C2_exactly_one_start_witness:
  "feed (\<lambda>msg. None) (NewServerRPC False)
     [(False, Packet_CallStart
         \<lparr>cs_RpcService = ''echo.Echoer'', cs_RpcMethod = ''Echo'', cs_Data = [7], cs_DataIsZero = False\<rparr>),
      (False, Packet_CallData
         \<lparr>cd_Data = [8], cd_DataIsZero = False, cd_Complete = False, cd_Error = []\<rparr>),
      (False, Packet_CallStart
         \<lparr>cs_RpcService = ''echo.Echoer'', cs_RpcMethod = ''EchoBidiStream'', cs_Data = [9], cs_DataIsZero = False\<rparr>)]
   = \<lparr>ctxDone = False, service = ''echo.Echoer'', method_name = ''Echo'',
      dataCh = \<lparr>ch_buf = [[7], [8]], ch_cap = 5, ch_closed = False\<rparr>,
      dataChClosed = False, clientErr = None, effects = [Go_invokeRPC]\<rparr> \<and>
   spawned (feed (\<lambda>msg. None) (NewServerRPC False)
     [(False, Packet_CallStart
         \<lparr>cs_RpcService = ''echo.Echoer'', cs_RpcMethod = ''Echo'', cs_Data = [7], cs_DataIsZero = False\<rparr>),
      (False, Packet_CallData
         \<lparr>cd_Data = [8], cd_DataIsZero = False, cd_Complete = False, cd_Error = []\<rparr>),
      (False, Packet_CallStart
         \<lparr>cs_RpcService = ''echo.Echoer'', cs_RpcMethod = ''EchoBidiStream'', cs_Data = [9], cs_DataIsZero = False\<rparr>)])
   = 1 \<and>
   HandleCallStart
     \<lparr>ctxDone = False, service = ''echo.Echoer'', method_name = ''Echo'',
      dataCh = \<lparr>ch_buf = [[7], [8]], ch_cap = 5, ch_closed = False\<rparr>,
      dataChClosed = False, clientErr = None, effects = [Go_invokeRPC]\<rparr>
     \<lparr>cs_RpcService = ''echo.Echoer'', cs_RpcMethod = ''EchoBidiStream'', cs_Data = [9], cs_DataIsZero = False\<rparr>
   = (Some (ErrorsNew ''call start must be sent only once''),
      \<lparr>ctxDone = False, service = ''echo.Echoer'', method_name = ''Echo'',
       dataCh = \<lparr>ch_buf = [[7], [8]], ch_cap = 5, ch_closed = False\<rparr>,
       dataChClosed = False, clientErr = None, effects = [Go_invokeRPC]\<rparr>)"
  using C2_exactly_one_start
    [of "\<lparr>ctxDone = False, service = ''echo.Echoer'', method_name = ''Echo'',
          dataCh = \<lparr>ch_buf = [[7], [8]], ch_cap = 5, ch_closed = False\<rparr>,
          dataChClosed = False, clientErr = None, effects = [Go_invokeRPC]\<rparr>"
        "\<lparr>cs_RpcService = ''echo.Echoer'', cs_RpcMethod = ''EchoBidiStream'', cs_Data = [9], cs_DataIsZero = False\<rparr>"
        "\<lambda>msg. None"
        "\<lparr>cs_RpcService = ''echo.Echoer'', cs_RpcMethod = ''Echo'', cs_Data = [7], cs_DataIsZero = False\<rparr>"
        False False
        "[(False, Packet_CallData
             \<lparr>cd_Data = [8], cd_DataIsZero = False, cd_Complete = False, cd_Error = []\<rparr>),
          (False, Packet_CallStart
             \<lparr>cs_RpcService = ''echo.Echoer'', cs_RpcMethod = ''EchoBidiStream'', cs_Data = [9], cs_DataIsZero = False\<rparr>)]"]
  by (simp add: HandlePacket_def HandleCallData_def HandleCallStart_def NewServerRPC_def
      select_send_def make_chan_def chan_ready_def chan_put_def emit_def spawned_def Let_def)

text \<open>
  Claim C10 (the first CallStart finds room). On a ServerRPC as NewServerRPC builds it,
  HandleCallStart does not return "data channel was full, expected empty": the channel
  has capacity 5 and holds nothing, so the call returns no error, the inline data (when
  there is some) is the only element of the channel, and one invokeRPC goroutine is
  started.
\<close>

theorem C10_first_start_finds_room:
  "fst (HandleCallStart (NewServerRPC d) pkt) \<noteq> Some (ErrorsNew ''data channel was full, expected empty'') \<and>
   fst (HandleCallStart (NewServerRPC d) pkt) = None \<and>
   ch_buf (dataCh (snd (HandleCallStart (NewServerRPC d) pkt))) =
     (if length (cs_Data pkt) \<noteq> 0 then [cs_Data pkt] else []) \<and>
   spawned (snd (HandleCallStart (NewServerRPC d) pkt)) = 1"
  by (simp add: HandleCallStart_def NewServerRPC_def make_chan_def chan_ready_def chan_put_def
      emit_def spawned_def Let_def)

theorem C10_first_start_finds_room_witness:
  "fst (HandleCallStart (NewServerRPC False)
      \<lparr>cs_RpcService = ''echo.Echoer'', cs_RpcMethod = ''Echo'', cs_Data = [1, 2], cs_DataIsZero = False\<rparr>)
     = None \<and>
   ch_buf (dataCh (snd (HandleCallStart (NewServerRPC False)
      \<lparr>cs_RpcService = ''echo.Echoer'', cs_RpcMethod = ''Echo'', cs_Data = [1, 2], cs_DataIsZero = False\<rparr>)))
     = [[1, 2]]"
  using C10_first_start_finds_room
    [of False "\<lparr>cs_RpcService = ''echo.Echoer'', cs_RpcMethod = ''Echo'', cs_Data = [1, 2], cs_DataIsZero = False\<rparr>"]
  by simp

section \<open>Properties of CommonRPC (TypeScript)\<close>

lemma handleCallData_before_start:
  assumes "\<not> truthy_str (ts_service c) \<or> \<not> truthy_str (ts_method c)"
  shows "handleCallData c packet = Inl ''call start must be sent before call data''"
  using assms by (simp add: handleCallData_def)

lemma pushRpcData_dataIsZero:
  "truthy z \<Longrightarrow> pushRpcData d z = [Push []]"
  by (simp add: pushRpcData_def split: option.splits)

lemma pushRpcData_no_flag:
  "\<not> truthy z \<Longrightarrow>
   pushRpcData d z = (case d of None \<Rightarrow> [] | Some b \<Rightarrow> if b = [] then [] else [Push b])"
  by (simp add: pushRpcData_def split: option.splits)

lemma writeCallData_empty:
  "writeCallData (Some []) None None =
     \<lparr>cd_Data = [], cd_DataIsZero = True, cd_Complete = False, cd_Error = []\<rparr>"
  by (simp add: writeCallData_def truthy_def truthy_str_def)

section \<open>Data packets on the Go server\<close>

text \<open>
  Claim C3 (data before the start). The claim asks for an error; the Go ServerRPC does
  otherwise. On a ServerRPC that has recorded neither service nor procedure name, a
  CallData packet with a payload is accepted: HandleCallData returns no error and puts
  the payload into the channel. (The TypeScript CommonRPC refuses the same packet, lemma
  \<open>handleCallData_before_start\<close>.)
\<close>

theorem C3_data_before_start_is_enqueued:
  assumes "service r = []" and "method_name r = []"
    and "\<not> dataChClosed r" and "\<not> ctxDone r" and "chan_ready (dataCh r)"
    and "cd_Data pkt \<noteq> []" and "cd_Error pkt = []" and "\<not> cd_Complete pkt"
  shows "HandleCallData pickDone r pkt =
           Returns (None, r\<lparr>dataCh := chan_put (dataCh r) (cd_Data pkt)\<rparr>)"
  using assms by (simp add: HandleCallData_def select_send_def)

theorem C3_data_before_start_is_enqueued_witness:
  "HandleCallData False (NewServerRPC False)
     \<lparr>cd_Data = [1, 2, 3], cd_DataIsZero = False, cd_Complete = False, cd_Error = []\<rparr>
   = Returns (None,
       \<lparr>ctxDone = False, service = [], method_name = [],
        dataCh = \<lparr>ch_buf = [[1, 2, 3]], ch_cap = 5, ch_closed = False\<rparr>,
        dataChClosed = False, clientErr = None, effects = []\<rparr>)"
  using C3_data_before_start_is_enqueued
    [of "NewServerRPC False"
        "\<lparr>cd_Data = [1, 2, 3], cd_DataIsZero = False, cd_Complete = False, cd_Error = []\<rparr>" False]
  by (simp add: NewServerRPC_def make_chan_def chan_ready_def chan_put_def)

text \<open>
  Five payloads accepted before the start fill the channel, and the CallStart that
  follows with inline data then fails with the error that HandleCallStart expects never
  to return.
\<close>

lemma HandleCallStart_full_after_early_data:
  "fst (HandleCallStart
     (feed (\<lambda>msg. None) (NewServerRPC False)
        [(False, Packet_CallData \<lparr>cd_Data = [1], cd_DataIsZero = False, cd_Complete = False, cd_Error = []\<rparr>),
         (False, Packet_CallData \<lparr>cd_Data = [2], cd_DataIsZero = False, cd_Complete = False, cd_Error = []\<rparr>),
         (False, Packet_CallData \<lparr>cd_Data = [3], cd_DataIsZero = False, cd_Complete = False, cd_Error = []\<rparr>),
         (False, Packet_CallData \<lparr>cd_Data = [4], cd_DataIsZero = False, cd_Complete = False, cd_Error = []\<rparr>),
         (False, Packet_CallData \<lparr>cd_Data = [5], cd_DataIsZero = False, cd_Complete = False, cd_Error = []\<rparr>)])
     \<lparr>cs_RpcService = ''echo.Echoer'', cs_RpcMethod = ''Echo'', cs_Data = [6], cs_DataIsZero = False\<rparr>)
   = Some (ErrorsNew ''data channel was full, expected empty'')"
  by (simp add: HandlePacket_def HandleCallData_def HandleCallStart_def NewServerRPC_def
      select_send_def make_chan_def chan_ready_def chan_put_def Let_def)

text \<open>
  MsgSend hands the marshalled bytes to WriteCallData as they are, also when there are
  none, and MsgRecv decodes whatever ReadOne returns, also an empty payload.
\<close>

lemma MsgSend_hands_payload_on:
  assumes "\<not> ms_ctxDone r" and "marshal msg = Inr d"
  shows "rw_written (ms_rw (snd (MsgSend marshal r msg))) = rw_written (ms_rw r) @ [(d, False, None)]"
  using assms
  by (simp add: MsgSend_def WriteCallData_def Let_def split: list.splits)

lemma MsgRecv_decodes_payload:
  assumes "ReadOne (ms_rw r) = Returns (Inr d, rw1)"
  shows "MsgRecv UnmarshalVT r m = Returns (None, SetData m d, r\<lparr>ms_rw := rw1\<rparr>)"
  using assms by (simp add: MsgRecv_def UnmarshalVT_def)

text \<open>
  Claim C1 (empty messages). The claim asks that a zero-length payload marked with
  \<^verbatim>\<open>dataIsZero\<close> reaches the receiver; the Go ServerRPC does otherwise.
  HandleCallData only tests the length of the payload: for a packet whose payload is
  empty, whatever its \<^verbatim>\<open>dataIsZero\<close>, it returns no error and the content of
  the channel stays as it was, so the handler never receives the empty message. (The
  TypeScript receiver delivers it, lemma \<open>pushRpcData_dataIsZero\<close>.)
\<close>

theorem C1_empty_payload_not_enqueued:
  assumes "\<not> dataChClosed r" and "cd_Data pkt = []"
  shows "\<exists>r1. HandleCallData pickDone r pkt = Returns (None, r1) \<and>
              ch_buf (dataCh r1) = ch_buf (dataCh r)"
  using assms by (simp add: HandleCallData_def Let_def chan_close_def)

theorem C1_empty_payload_not_enqueued_witness:
  "cd_DataIsZero (writeCallData (Some []) None None) \<and>
   HandleCallData False
     \<lparr>ctxDone = False, service = ''echo.Echoer'', method_name = ''EchoClientStream'',
      dataCh = \<lparr>ch_buf = [], ch_cap = 5, ch_closed = False\<rparr>,
      dataChClosed = False, clientErr = None, effects = [Go_invokeRPC]\<rparr>
     (writeCallData (Some []) None None)
   = Returns (None,
       \<lparr>ctxDone = False, service = ''echo.Echoer'', method_name = ''EchoClientStream'',
        dataCh = \<lparr>ch_buf = [], ch_cap = 5, ch_closed = False\<rparr>,
        dataChClosed = False, clientErr = None, effects = [Go_invokeRPC]\<rparr>)"
  using C1_empty_payload_not_enqueued
    [of "\<lparr>ctxDone = False, service = ''echo.Echoer'', method_name = ''EchoClientStream'',
          dataCh = \<lparr>ch_buf = [], ch_cap = 5, ch_closed = False\<rparr>,
          dataChClosed = False, clientErr = None, effects = [Go_invokeRPC]\<rparr>"
        "writeCallData (Some []) None None" False]
  by (simp add: HandleCallData_def writeCallData_def truthy_def truthy_str_def)

section \<open>The end of an invocation\<close>

text \<open>
  Claim C4 (the terminal packet). When InvokeMethod returns \<open>(ok, err)\<close>, invokeRPC
  adds exactly three effects after those of the handler, in this order: one CallData
  packet with \<open>complete\<close> set, no payload, and as error the text of \<open>err\<close>, the text
  of ErrUnimplemented when \<open>err\<close> is nil and \<open>ok\<close> is false, and the empty string
  otherwise; the cancellation of the context; the closing of the writer.
\<close>

theorem C4_terminal_packet:
  assumes "mux (service r) (method_name r) r = Returns ((ok, err), r1)"
  shows "invokeRPC txt mux r =
           Returns (r1\<lparr>ctxDone := True,
                      effects := effects r1 @
                        [Writer_MsgSend (Packet_CallData
                           \<lparr>cd_Data = [], cd_DataIsZero = False, cd_Complete = True,
                            cd_Error = (case err of
                                          Some e \<Rightarrow> Error txt e
                                        | None \<Rightarrow> if ok then [] else txt ErrUnimplemented)\<rparr>),
                         CtxCancel, Writer_Close]\<rparr>)"
  using assms
  by (auto simp: invokeRPC_def Let_def emit_def NewCallDataPacket_def split: option.splits)

theorem C4_terminal_packet_witness:
  "invokeRPC (\<lambda>s. ''unimplemented'') (\<lambda>sv m r. Returns ((False, None), r))
     \<lparr>ctxDone = False, service = ''echo.Echoer'', method_name = ''Missing'',
      dataCh = \<lparr>ch_buf = [], ch_cap = 5, ch_closed = False\<rparr>,
      dataChClosed = False, clientErr = None, effects = [Go_invokeRPC]\<rparr>
   = Returns
     \<lparr>ctxDone = True, service = ''echo.Echoer'', method_name = ''Missing'',
      dataCh = \<lparr>ch_buf = [], ch_cap = 5, ch_closed = False\<rparr>,
      dataChClosed = False, clientErr = None,
      effects = [Go_invokeRPC,
                 Writer_MsgSend (Packet_CallData
                   \<lparr>cd_Data = [], cd_DataIsZero = False, cd_Complete = True,
                    cd_Error = ''unimplemented''\<rparr>),
                 CtxCancel, Writer_Close]\<rparr>"
  using C4_terminal_packet
    [of "\<lambda>sv m r. Returns ((False, None), r)"
        "\<lparr>ctxDone = False, service = ''echo.Echoer'', method_name = ''Missing'',
          dataCh = \<lparr>ch_buf = [], ch_cap = 5, ch_closed = False\<rparr>,
          dataChClosed = False, clientErr = None, effects = [Go_invokeRPC]\<rparr>"
        False None
        "\<lparr>ctxDone = False, service = ''echo.Echoer'', method_name = ''Missing'',
          dataCh = \<lparr>ch_buf = [], ch_cap = 5, ch_closed = False\<rparr>,
          dataChClosed = False, clientErr = None, effects = [Go_invokeRPC]\<rparr>"
        "\<lambda>s. ''unimplemented''"]
  by simp

section \<open>Closing a MsgStream\<close>

lemma MsgStream_Close_eq:
  "MsgStream_Close r =
     (None, r\<lparr>ms_rw := snd (WriteCallData (ms_rw r) [] True None),
              ms_closeCbCalls := (if ms_closeCb r then Suc (ms_closeCbCalls r)
                                  else ms_closeCbCalls r)\<rparr>)"
  by (simp add: MsgStream_Close_def CloseSend_def Let_def case_prod_beta)

text \<open>
  Claim C5, as the claim states it, fails: Close keeps no record of having run. Two calls
  of Close on a stream with a close callback invoke the callback twice.
\<close>

theorem C5_close_twice_counterexample:
  "ms_closeCbCalls
     (Close_times 2 (NewMsgStream False \<lparr>rw_readq = [], rw_writeq = [], rw_written = []\<rparr> True))
   = 2"
  by (simp add: numeral_2_eq_2 MsgStream_Close_eq NewMsgStream_def)

text \<open>
  Claim C5, amended. Every call of Close returns nil, attempts one half-close write
  \<^verbatim>\<open>WriteCallData(nil, true, nil)\<close> whose result it drops, and invokes the close
  callback once when there is one: after \<open>k\<close> calls the callback has run \<open>k\<close> more
  times and \<open>k\<close> more half-close writes have been attempted.
\<close>

theorem C5_close_each_time:
  "fst (MsgStream_Close r) = None \<and>
   ms_closeCbCalls (Close_times k r) = ms_closeCbCalls r + (if ms_closeCb r then k else 0) \<and>
   rw_written (ms_rw (Close_times k r)) = rw_written (ms_rw r) @ replicate k ([], True, None) \<and>
   ms_closeCb (Close_times k r) = ms_closeCb r"
proof (induction k arbitrary: r)
  case 0
  show ?case by (simp add: MsgStream_Close_eq)
next
  case (Suc k)
  show ?case
    by (simp add: Suc MsgStream_Close_eq WriteCallData_def Let_def replicate_append_same
        split: list.splits)
qed

theorem C5_close_each_time_witness:
  "ms_closeCbCalls
     (Close_times 3 (NewMsgStream False \<lparr>rw_readq = [], rw_writeq = [], rw_written = []\<rparr> True))
   = 3 \<and>
   rw_written (ms_rw
     (Close_times 3 (NewMsgStream False \<lparr>rw_readq = [], rw_writeq = [], rw_written = []\<rparr> True)))
   = [([], True, None), ([], True, None), ([], True, None)]"
  using C5_close_each_time
    [of "NewMsgStream False \<lparr>rw_readq = [], rw_writeq = [], rw_written = []\<rparr> True" 3]
  by (simp add: NewMsgStream_def numeral_3_eq_3)

section \<open>Opening the tunnel\<close>

text \<open>
  Claim C6 (waiting for the Ack). With \<^verbatim>\<open>waitAck\<close> set, after the Init packet
  is sent OpenRpcStream takes exactly one packet from the stream. An Ack whose error
  \<open>e\<close> is not empty gives the error "remote: " followed by \<open>e\<close>; a packet that is not
  an Ack gives the error "expected ack packet"; in both cases the stream is closed (once)
  and no read/writer is returned. An Ack with an empty error gives the read/writer over
  the stream, which is not closed.
\<close>

theorem C6_wait_ack:
  assumes "Send (RpcStreamPacket_Init (Some (RpcStreamInit componentID))) s = (None, s1)"
    and "Recv s1 = Returns (Inr pkt, s2)"
  shows "OpenRpcStream (Inr s) componentID True =
           Returns
             (case pkt of
                RpcStreamPacket_Ack b \<Rightarrow>
                  if GetError b \<noteq> [] then
                    OpenFailed (ErrorsNew (''remote: '' @ GetError b))
                      (Some (s2\<lparr>st_closed := Suc (st_closed s2)\<rparr>))
                  else Opened (NewRpcStreamReadWriter s2)
              | _ \<Rightarrow>
                  OpenFailed (ErrorsNew ''expected ack packet'')
                    (Some (s2\<lparr>st_closed := Suc (st_closed s2)\<rparr>))) \<and>
         st_recvq s2 = tl (st_recvq s) \<and> st_closed s2 = st_closed s"
  using assms
  by (auto simp: OpenRpcStream_def Let_def RpcStream_Close_def Recv_def Send_def
      split: RpcStreamPacket.splits list.splits)

theorem C6_wait_ack_witness:
  "OpenRpcStream
     (Inr \<lparr>st_recvq = [Inr (RpcStreamPacket_Ack (Some (RpcAck ''no server for that component''))),
                       Inr (RpcStreamPacket_Data [1])],
           st_sendq = [], st_closeErr = None, st_sent = [], st_closed = 0\<rparr>)
     ''absent'' True
   = Returns
       (OpenFailed (ErrorsNew ''remote: no server for that component'')
          (Some \<lparr>st_recvq = [Inr (RpcStreamPacket_Data [1])], st_sendq = [], st_closeErr = None,
                 st_sent = [RpcStreamPacket_Init (Some (RpcStreamInit ''absent''))],
                 st_closed = 1\<rparr>))"
  using C6_wait_ack
    [of "''absent''"
        "\<lparr>st_recvq = [Inr (RpcStreamPacket_Ack (Some (RpcAck ''no server for that component''))),
                     Inr (RpcStreamPacket_Data [1])],
          st_sendq = [], st_closeErr = None, st_sent = [], st_closed = 0\<rparr>"
        "\<lparr>st_recvq = [Inr (RpcStreamPacket_Ack (Some (RpcAck ''no server for that component''))),
                     Inr (RpcStreamPacket_Data [1])],
          st_sendq = [], st_closeErr = None,
          st_sent = [RpcStreamPacket_Init (Some (RpcStreamInit ''absent''))], st_closed = 0\<rparr>"
        "RpcStreamPacket_Ack (Some (RpcAck ''no server for that component''))"
        "\<lparr>st_recvq = [Inr (RpcStreamPacket_Data [1])],
          st_sendq = [], st_closeErr = None,
          st_sent = [RpcStreamPacket_Init (Some (RpcStreamInit ''absent''))], st_closed = 0\<rparr>"]
  by (simp add: Send_def Recv_def GetError_def)

section \<open>Accepting the tunnel\<close>

text \<open>
  Claim C7 (the acceptor). Let the first packet of the stream be \<open>pkt\<close>. If \<open>pkt\<close> is
  not an Init packet (or its Init is nil), HandleRpcStream returns "expected init
  packet"; if its component id is empty, it returns "invalid init packet: empty component
  id"; in both cases nothing is sent. If the getter returns neither a mux nor an error,
  one Ack with the error "no server for that component" is sent and that error is
  returned. Whenever HandleRpcStream returns after the getter was asked, the release
  function has been called once if the getter returned a mux together with a release
  function, and not at all otherwise, whether or not the getter returned an error; the
  call does return when the getter returned an error, and when the nested session
  returns.
\<close>

theorem C7_handle_rpc_stream:
  assumes "Recv stream = Returns (Inr pkt, s1)"
  shows "((\<forall>i. pkt \<noteq> RpcStreamPacket_Init (Some i)) \<longrightarrow>
           HandleRpcStream txt getter session stream =
             Returns \<lparr>h_err = Some (ErrorsNew ''expected init packet''),
                      h_stream = s1, h_released = 0\<rparr>) \<and>
         (pkt = RpcStreamPacket_Init (Some (RpcStreamInit [])) \<longrightarrow>
           HandleRpcStream txt getter session stream =
             Returns \<lparr>h_err = Some (ErrorsNew ''invalid init packet: empty component id''),
                      h_stream = s1, h_released = 0\<rparr>) \<and>
         (\<forall>cid. pkt = RpcStreamPacket_Init (Some (RpcStreamInit cid)) \<and> cid \<noteq> [] \<and>
             g_mux (getter cid) = None \<and> g_err (getter cid) = None \<longrightarrow>
           HandleRpcStream txt getter session stream =
             Returns \<lparr>h_err = Some (ErrorsNew ''no server for that component''),
                      h_stream = snd (Send (RpcStreamPacket_Ack
                                        (Some (RpcAck ''no server for that component''))) s1),
                      h_released = 0\<rparr>) \<and>
         (\<forall>cid e. pkt = RpcStreamPacket_Init (Some (RpcStreamInit cid)) \<and> cid \<noteq> [] \<and>
             g_err (getter cid) = Some e \<longrightarrow>
           HandleRpcStream txt getter session stream =
             Returns \<lparr>h_err = Some e,
                      h_stream = snd (Send (RpcStreamPacket_Ack (Some (RpcAck (Error txt e)))) s1),
                      h_released = (if g_mux (getter cid) \<noteq> None \<and> g_muxRel (getter cid)
                                    then 1 else 0)\<rparr>) \<and>
         (\<forall>cid s2 werr s3. pkt = RpcStreamPacket_Init (Some (RpcStreamInit cid)) \<and> cid \<noteq> [] \<and>
             g_err (getter cid) = None \<and> g_mux (getter cid) \<noteq> None \<and>
             Send (RpcStreamPacket_Ack (Some (RpcAck []))) s1 = (None, s2) \<and>
             session (g_mux (getter cid)) s2 = Returns (werr, s3) \<longrightarrow>
           HandleRpcStream txt getter session stream =
             Returns \<lparr>h_err = werr, h_stream = s3,
                      h_released = (if g_muxRel (getter cid) then 1 else 0)\<rparr>) \<and>
         (\<forall>cid res. pkt = RpcStreamPacket_Init (Some (RpcStreamInit cid)) \<and> cid \<noteq> [] \<and>
             HandleRpcStream txt getter session stream = Returns res \<longrightarrow>
           h_released res =
             (if g_mux (getter cid) \<noteq> None \<and> g_muxRel (getter cid) then 1 else 0))"
  using assms
  apply (intro conjI allI impI)
  subgoal by (auto simp: HandleRpcStream_def split: RpcStreamPacket.splits option.splits)
  subgoal by (simp add: HandleRpcStream_def)
  subgoal by (simp add: HandleRpcStream_def Let_def case_prod_beta)
  subgoal by (simp add: HandleRpcStream_def Let_def case_prod_beta)
  subgoal by (auto simp: HandleRpcStream_def Let_def)
  subgoal by (auto simp: HandleRpcStream_def Let_def case_prod_beta split: if_splits outcome.splits)
  done

theorem C7_handle_rpc_stream_witness:
  "HandleRpcStream (\<lambda>s. ''unimplemented'')
     (\<lambda>cid. if cid = ''echo'' then \<lparr>g_mux = Some (0::nat), g_muxRel = True, g_err = None\<rparr>
             else if cid = ''locked''
             then \<lparr>g_mux = Some 1, g_muxRel = True, g_err = Some (ErrorsNew ''component is locked'')\<rparr>
             else \<lparr>g_mux = None, g_muxRel = False, g_err = None\<rparr>)
     (\<lambda>m s. Returns (None, s))
     \<lparr>st_recvq = [Inr (RpcStreamPacket_Init (Some (RpcStreamInit ''absent'')))],
      st_sendq = [], st_closeErr = None, st_sent = [], st_closed = 0\<rparr>
   = Returns
       \<lparr>h_err = Some (ErrorsNew ''no server for that component''),
        h_stream = \<lparr>st_recvq = [], st_sendq = [], st_closeErr = None,
                    st_sent = [RpcStreamPacket_Ack (Some (RpcAck ''no server for that component''))],
                    st_closed = 0\<rparr>,
        h_released = 0\<rparr> \<and>
   HandleRpcStream (\<lambda>s. ''unimplemented'')
     (\<lambda>cid. if cid = ''echo'' then \<lparr>g_mux = Some (0::nat), g_muxRel = True, g_err = None\<rparr>
             else if cid = ''locked''
             then \<lparr>g_mux = Some 1, g_muxRel = True, g_err = Some (ErrorsNew ''component is locked'')\<rparr>
             else \<lparr>g_mux = None, g_muxRel = False, g_err = None\<rparr>)
     (\<lambda>m s. Returns (None, s))
     \<lparr>st_recvq = [Inr (RpcStreamPacket_Init (Some (RpcStreamInit ''locked'')))],
      st_sendq = [], st_closeErr = None, st_sent = [], st_closed = 0\<rparr>
   = Returns
       \<lparr>h_err = Some (ErrorsNew ''component is locked''),
        h_stream = \<lparr>st_recvq = [], st_sendq = [], st_closeErr = None,
                    st_sent = [RpcStreamPacket_Ack (Some (RpcAck ''component is locked''))],
                    st_closed = 0\<rparr>,
        h_released = 1\<rparr>"
  using
    C7_handle_rpc_stream
      [of "\<lparr>st_recvq = [Inr (RpcStreamPacket_Init (Some (RpcStreamInit ''absent'')))],
            st_sendq = [], st_closeErr = None, st_sent = [], st_closed = 0\<rparr>"
          "RpcStreamPacket_Init (Some (RpcStreamInit ''absent''))"
          "\<lparr>st_recvq = [], st_sendq = [], st_closeErr = None, st_sent = [], st_closed = 0\<rparr>"
          "\<lambda>s. ''unimplemented''"
          "\<lambda>cid. if cid = ''echo'' then \<lparr>g_mux = Some (0::nat), g_muxRel = True, g_err = None\<rparr>
                 else if cid = ''locked''
                 then \<lparr>g_mux = Some 1, g_muxRel = True, g_err = Some (ErrorsNew ''component is locked'')\<rparr>
                 else \<lparr>g_mux = None, g_muxRel = False, g_err = None\<rparr>"
          "\<lambda>m s. Returns (None, s)"]
    C7_handle_rpc_stream
      [of "\<lparr>st_recvq = [Inr (RpcStreamPacket_Init (Some (RpcStreamInit ''locked'')))],
            st_sendq = [], st_closeErr = None, st_sent = [], st_closed = 0\<rparr>"
          "RpcStreamPacket_Init (Some (RpcStreamInit ''locked''))"
          "\<lparr>st_recvq = [], st_sendq = [], st_closeErr = None, st_sent = [], st_closed = 0\<rparr>"
          "\<lambda>s. ''unimplemented''"
          "\<lambda>cid. if cid = ''echo'' then \<lparr>g_mux = Some (0::nat), g_muxRel = True, g_err = None\<rparr>
                 else if cid = ''locked''
                 then \<lparr>g_mux = Some 1, g_muxRel = True, g_err = Some (ErrorsNew ''component is locked'')\<rparr>
                 else \<lparr>g_mux = None, g_muxRel = False, g_err = None\<rparr>"
          "\<lambda>m s. Returns (None, s)"]
  by (simp add: Recv_def Send_def)

section \<open>Writing to the tunnel\<close>

text \<open>
  Claim C8, as the claim states it, fails on the empty slice: Write returns at once and
  hands no frame to the stream.
\<close>

theorem C8_write_empty_counterexample:
  "st_sent (rw_stream (snd (Write
     \<lparr>rw_stream = \<lparr>st_recvq = [], st_sendq = [], st_closeErr = None, st_sent = [], st_closed = 0\<rparr>,
      rw_buf = []\<rparr> [])))
   = []"
  by (simp add: Write_def)

text \<open>
  Claim C8, amended. For a slice \<open>p\<close> that is not empty, Write hands exactly one frame
  to the stream, the Data frame with payload \<open>p\<close>, and returns \<open>length p\<close> and no error
  when Send succeeds, and 0 with the error of Send when it fails. For the empty slice it
  sends nothing and returns 0 and no error.
\<close>

theorem C8_write_one_frame:
  "Write r [] = ((0, None), r) \<and>
   (p \<noteq> [] \<longrightarrow>
      st_sent (rw_stream (snd (Write r p))) = st_sent (rw_stream r) @ [RpcStreamPacket_Data p] \<and>
      fst (Write r p) =
        (case fst (Send (RpcStreamPacket_Data p) (rw_stream r)) of
           None \<Rightarrow> (length p, None)
         | Some e \<Rightarrow> (0, Some e)) \<and>
      rw_buf (snd (Write r p)) = rw_buf r)"
  by (auto simp: Write_def Send_def Let_def split: list.splits option.splits prod.splits)

theorem C8_write_one_frame_witness:
  "Write
     \<lparr>rw_stream = \<lparr>st_recvq = [], st_sendq = [None, Some IoEOF], st_closeErr = None,
                    st_sent = [], st_closed = 0\<rparr>,
      rw_buf = []\<rparr> [4, 5, 6]
   = ((3, None),
      \<lparr>rw_stream = \<lparr>st_recvq = [], st_sendq = [Some IoEOF], st_closeErr = None,
                     st_sent = [RpcStreamPacket_Data [4, 5, 6]], st_closed = 0\<rparr>,
       rw_buf = []\<rparr>)"
  using C8_write_one_frame
    [of "\<lparr>rw_stream = \<lparr>st_recvq = [], st_sendq = [None, Some IoEOF], st_closeErr = None,
                        st_sent = [], st_closed = 0\<rparr>,
          rw_buf = []\<rparr>" "[4, 5, 6]"]
  by (simp add: Write_def Send_def)

section \<open>Reading from the tunnel\<close>

lemma length_copy_at: "n \<le> length p \<Longrightarrow> length (copy_at p n src) = length p"
  by (auto simp: copy_at_def Let_def min_def)

lemma Read_loop_mono:
  "Read_loop r p n = Returns (m, e, p', r') \<Longrightarrow>
     n \<le> m \<and> length p' = length p \<and> (n \<le> length p \<longrightarrow> m \<le> length p) \<and>
     (e = None \<and> n < length p \<longrightarrow> 0 < m)"
proof (induction r p n arbitrary: m e p' r' rule: Read_loop.induct)
  case (1 r p n)
  note run = "1.prems"
  show ?case
  proof (cases "length (drop n p) = 0")
    case True
    with run show ?thesis by (subst (asm) Read_loop.simps) simp
  next
    case nonempty: False
    then have np: "n \<le> length p" by simp
    show ?thesis
    proof (cases "length (rw_buf r) \<noteq> 0")
      case True
      let ?rn = "min (length (rw_buf r)) (length (drop n p))"
      from run nonempty True
      have "Read_loop (r\<lparr>rw_buf := drop ?rn (rw_buf r)\<rparr>) (copy_at p n (rw_buf r)) (n + ?rn)
              = Returns (m, e, p', r')"
        by (subst (asm) Read_loop.simps) (simp add: Let_def)
      note ih = "1.IH"(1) [OF nonempty True refl this]
have rn: "0 < ?rn" using nonempty True by (cases "rw_buf r") auto
                  have le: "n + ?rn \<le> length p" using np by (auto simp: min_def)
                  have len: "length (copy_at p n (rw_buf r)) = length p" using np by (rule length_copy_at)
                  from ih have a: "n + ?rn \<le> m" by blast
                  from ih len have b: "length p' = length p" by simp
                  from ih len le have c: "m \<le> length p" by simp
                  from a rn have d: "0 < m" by linarith
                  from a have "n \<le> m" by linarith
                  with b c d show ?thesis by simp
    next
      case nobuf: False
      show ?thesis
      proof (cases "n \<noteq> 0")
        case True
        with run nonempty nobuf show ?thesis by (subst (asm) Read_loop.simps) simp
      next
        case n0: False
        show ?thesis
        proof (cases "Recv (rw_stream r)")
          case Blocks
          with run nonempty nobuf n0 show ?thesis by (subst (asm) Read_loop.simps) simp
        next
          case (Returns x)
          obtain res s1 where x: "x = (res, s1)" by (cases x)
          show ?thesis
          proof (cases res)
            case (Inl err)
            with run nonempty nobuf n0 Returns x show ?thesis
              by (subst (asm) Read_loop.simps) auto
          next
            case (Inr pkt)
            note rcv = Returns x [symmetric] Inr
            show ?thesis
            proof (cases "GetError (GetAck pkt) \<noteq> []")
              case True
              with run nonempty nobuf n0 Returns x Inr show ?thesis
                by (subst (asm) Read_loop.simps) (auto simp: Let_def)
            next
              case noerr: False
              show ?thesis
              proof (cases "length (GetData pkt) = 0")
                case True
                from run nonempty nobuf n0 Returns x Inr noerr True
                have "Read_loop (r\<lparr>rw_stream := s1\<rparr>) p n = Returns (m, e, p', r')"
                  by (subst (asm) Read_loop.simps) (simp add: Let_def)
                from "1.IH"(2) [OF nonempty nobuf n0 Returns x [symmetric] Inr refl noerr refl True this]
                show ?thesis .
              next
                case somedata: False
                show ?thesis
                proof (cases "length (drop n p) < length (GetData pkt)")
                  case True
                  from run nonempty nobuf n0 Returns x Inr noerr somedata True
                  have "Read_loop (r\<lparr>rw_stream := s1,
                            rw_buf := rw_buf r @ drop (length (drop n p)) (GetData pkt)\<rparr>)
                          (copy_at p n (GetData pkt)) (n + length (drop n p)) = Returns (m, e, p', r')"
                    by (subst (asm) Read_loop.simps) (simp add: Let_def)
                  note ih = "1.IH"(3) [OF nonempty nobuf n0 Returns x [symmetric] Inr refl noerr refl
                      somedata True refl this]
have rn: "0 < length (drop n p)" using nonempty by simp
                  have le: "n + length (drop n p) \<le> length p" using np by simp
                  have len: "length (copy_at p n (GetData pkt)) = length p" using np by (rule length_copy_at)
                  from ih have a: "n + length (drop n p) \<le> m" by blast
                  from ih len have b: "length p' = length p" by simp
                  from ih len le have c: "m \<le> length p" by simp
                  from a rn have d: "0 < m" by linarith
                  from a have "n \<le> m" by linarith
                  with b c d show ?thesis by simp
                next
                  case False
                  from run nonempty nobuf n0 Returns x Inr noerr somedata False
                  have "Read_loop (r\<lparr>rw_stream := s1\<rparr>)
                          (copy_at p n (GetData pkt)) (n + length (GetData pkt)) = Returns (m, e, p', r')"
                    by (subst (asm) Read_loop.simps) (simp add: Let_def)
                  note ih = "1.IH"(4) [OF nonempty nobuf n0 Returns x [symmetric] Inr refl noerr refl
                      somedata False refl this]
have rn: "0 < length (GetData pkt)" using somedata by simp
                  have le: "n + length (GetData pkt) \<le> length p" using np False by simp
                  have len: "length (copy_at p n (GetData pkt)) = length p" using np by (rule length_copy_at)
                  from ih have a: "n + length (GetData pkt) \<le> m" by blast
                  from ih len have b: "length p' = length p" by simp
                  from ih len le have c: "m \<le> length p" by simp
                  from a rn have d: "0 < m" by linarith
                  from a have "n \<le> m" by linarith
                  with b c d show ?thesis by simp
                qed
              qed
            qed
          qed
        qed
      qed
    qed
  qed
qed


lemma copy_at_0: "copy_at p 0 src = take (min (length src) (length p)) src @ drop (min (length src) (length p)) p"
  by (simp add: copy_at_def Let_def)

lemma Read_loop_done:
  assumes "0 < n" and "rw_buf r = [] \<or> length p \<le> n"
  shows "Read_loop r p n = Returns (n, None, p, r)"
  using assms by (subst Read_loop.simps) auto

lemma Read_buffered:
  assumes "p \<noteq> []" and "rw_buf r \<noteq> []"
  shows "Read r p =
    Returns (min (length (rw_buf r)) (length p), None,
             take (min (length (rw_buf r)) (length p)) (rw_buf r) @
               drop (min (length (rw_buf r)) (length p)) p,
             r\<lparr>rw_buf := drop (min (length (rw_buf r)) (length p)) (rw_buf r)\<rparr>)"
proof -
  let ?k = "min (length (rw_buf r)) (length p)"
  have k: "0 < ?k" using assms by (cases p; cases "rw_buf r") auto
  have step: "Read_loop r p 0 =
      Read_loop (r\<lparr>rw_buf := drop ?k (rw_buf r)\<rparr>) (copy_at p 0 (rw_buf r)) ?k"
    using assms by (subst Read_loop.simps) (simp add: Let_def)
  have len: "length (copy_at p 0 (rw_buf r)) = length p"
    by (simp add: copy_at_0 min_def)
  have "rw_buf (r\<lparr>rw_buf := drop ?k (rw_buf r)\<rparr>) = [] \<or> length (copy_at p 0 (rw_buf r)) \<le> ?k"
    by (auto simp: len min_def)
  from Read_loop_done [OF k this] step show ?thesis
    by (simp add: Read_def copy_at_0)
qed

lemma Read_ack_error:
  assumes "p \<noteq> []" and "rw_buf r = []"
    and "Recv (rw_stream r) = Returns (Inr pkt, s1)" and "GetError (GetAck pkt) \<noteq> []"
  shows "Read r p = Returns (0, Some (ErrorsNew (GetError (GetAck pkt))), p, r\<lparr>rw_stream := s1\<rparr>)"
  using assms unfolding Read_def by (subst Read_loop.simps) (simp add: Let_def)

lemma Read_recv_error:
  assumes "p \<noteq> []" and "rw_buf r = []"
    and "Recv (rw_stream r) = Returns (Inl err, s1)"
  shows "Read r p = Returns (0, Some err, p, r\<lparr>rw_stream := s1\<rparr>)"
  using assms unfolding Read_def by (subst Read_loop.simps) (simp add: Let_def)

lemma Read_skip:
  assumes "p \<noteq> []" and "rw_buf r = []"
    and "Recv (rw_stream r) = Returns (Inr pkt, s1)" and "GetError (GetAck pkt) = []"
    and "GetData pkt = []"
  shows "Read r p = Read (r\<lparr>rw_stream := s1\<rparr>) p"
  using assms unfolding Read_def by (subst Read_loop.simps) (simp add: Let_def)

lemma Read_data:
  assumes "p \<noteq> []" and "rw_buf r = []"
    and "Recv (rw_stream r) = Returns (Inr (RpcStreamPacket_Data d), s1)" and "d \<noteq> []"
  shows "Read r p =
    Returns (min (length d) (length p), None,
             take (min (length d) (length p)) d @ drop (min (length d) (length p)) p,
             \<lparr>rw_stream = s1, rw_buf = drop (min (length d) (length p)) d\<rparr>)"
proof -
  let ?k = "min (length d) (length p)"
  have k: "0 < ?k" using assms by (cases p; cases d) auto
  have len: "length (copy_at p 0 d) = length p"
    by (simp add: copy_at_0 min_def)
  show ?thesis
  proof (cases "length d > length p")
    case True
    have step: "Read_loop r p 0 =
        Read_loop (r\<lparr>rw_stream := s1, rw_buf := rw_buf r @ drop (length p) d\<rparr>) (copy_at p 0 d) (length p)"
      using assms True by (subst Read_loop.simps) (simp add: Let_def GetAck_def GetError_def GetData_def)
    have "Read_loop (r\<lparr>rw_stream := s1, rw_buf := rw_buf r @ drop (length p) d\<rparr>) (copy_at p 0 d) (length p)
        = Returns (length p, None, copy_at p 0 d, r\<lparr>rw_stream := s1, rw_buf := rw_buf r @ drop (length p) d\<rparr>)"
      using assms by (intro Read_loop_done) (auto simp: len)
    with step True assms show ?thesis
      by (simp add: Read_def copy_at_0 min_def)
  next
    case False
    have step: "Read_loop r p 0 = Read_loop (r\<lparr>rw_stream := s1\<rparr>) (copy_at p 0 d) (length d)"
      using assms False by (subst Read_loop.simps) (simp add: Let_def GetAck_def GetError_def GetData_def)
    have "Read_loop (r\<lparr>rw_stream := s1\<rparr>) (copy_at p 0 d) (length d)
        = Returns (length d, None, copy_at p 0 d, r\<lparr>rw_stream := s1\<rparr>)"
      using assms by (intro Read_loop_done) auto
    with step False assms show ?thesis
      by (simp add: Read_def copy_at_0 min_def)
  qed
qed

lemma Read_delivers:
  assumes "Read r p = Returns (m, None, p', r')" and "p \<noteq> []"
  shows "0 < m \<and> m \<le> length p \<and> length p' = length p"
  using Read_loop_mono [of r p 0 m None p' r'] assms by (simp add: Read_def)

text \<open>
  Claim C9 (Read). Let \<open>p\<close> be a slice that is not empty.
  \<^item> If the buffer holds bytes, Read takes no packet: it copies as many buffered bytes as
    fit into \<open>p\<close>, keeps the others buffered, and returns their number.
  \<^item> If the buffer is empty, Read takes a packet. An Ack with an error that is not empty
    makes Read return 0 and that error. A Data frame with an empty payload is skipped:
    Read goes on as if called after it. A Data frame with a payload has as many of its
    bytes as fit copied into \<open>p\<close>, the others are buffered, and Read returns the number
    copied.
  \<^item> Whenever Read returns without error it has delivered at least one byte and at most
    \<open>length p\<close>.
\<close>

theorem C9_read:
  assumes "p \<noteq> []"
  shows "(rw_buf r \<noteq> [] \<longrightarrow>
            Read r p =
              Returns (min (length (rw_buf r)) (length p), None,
                       take (min (length (rw_buf r)) (length p)) (rw_buf r) @
                         drop (min (length (rw_buf r)) (length p)) p,
                       r\<lparr>rw_buf := drop (min (length (rw_buf r)) (length p)) (rw_buf r)\<rparr>)) \<and>
         (rw_buf r = [] \<and> Recv (rw_stream r) = Returns (Inr pkt, s1) \<and>
            GetError (GetAck pkt) \<noteq> [] \<longrightarrow>
            Read r p =
              Returns (0, Some (ErrorsNew (GetError (GetAck pkt))), p, r\<lparr>rw_stream := s1\<rparr>)) \<and>
         (rw_buf r = [] \<and> Recv (rw_stream r) = Returns (Inr (RpcStreamPacket_Data []), s1) \<longrightarrow>
            Read r p = Read (r\<lparr>rw_stream := s1\<rparr>) p) \<and>
         (rw_buf r = [] \<and> Recv (rw_stream r) = Returns (Inr (RpcStreamPacket_Data d), s1) \<and>
            d \<noteq> [] \<longrightarrow>
            Read r p =
              Returns (min (length d) (length p), None,
                       take (min (length d) (length p)) d @ drop (min (length d) (length p)) p,
                       \<lparr>rw_stream = s1, rw_buf = drop (min (length d) (length p)) d\<rparr>)) \<and>
         (Read r p = Returns (m, None, p', r') \<longrightarrow> 0 < m \<and> m \<le> length p \<and> length p' = length p)"
proof (intro conjI impI)
  assume "rw_buf r \<noteq> []"
  with assms show "Read r p =
      Returns (min (length (rw_buf r)) (length p), None,
               take (min (length (rw_buf r)) (length p)) (rw_buf r) @
                 drop (min (length (rw_buf r)) (length p)) p,
               r\<lparr>rw_buf := drop (min (length (rw_buf r)) (length p)) (rw_buf r)\<rparr>)"
    by (rule Read_buffered)
next
  assume "rw_buf r = [] \<and> Recv (rw_stream r) = Returns (Inr pkt, s1) \<and> GetError (GetAck pkt) \<noteq> []"
  with assms show "Read r p =
      Returns (0, Some (ErrorsNew (GetError (GetAck pkt))), p, r\<lparr>rw_stream := s1\<rparr>)"
    by (simp add: Read_ack_error)
next
  assume "rw_buf r = [] \<and> Recv (rw_stream r) = Returns (Inr (RpcStreamPacket_Data []), s1)"
  with assms show "Read r p = Read (r\<lparr>rw_stream := s1\<rparr>) p"
    by (intro Read_skip [where pkt = "RpcStreamPacket_Data []"])
       (simp_all add: GetAck_def GetError_def GetData_def)
next
  assume "rw_buf r = [] \<and> Recv (rw_stream r) = Returns (Inr (RpcStreamPacket_Data d), s1) \<and> d \<noteq> []"
  with assms show "Read r p =
      Returns (min (length d) (length p), None,
               take (min (length d) (length p)) d @ drop (min (length d) (length p)) p,
               \<lparr>rw_stream = s1, rw_buf = drop (min (length d) (length p)) d\<rparr>)"
    by (simp add: Read_data)
next
  assume "Read r p = Returns (m, None, p', r')"
  from Read_delivers [OF this assms]
  show "0 < m" and "m \<le> length p" and "length p' = length p" by simp_all
qed

theorem C9_read_witness:
  "Read
     \<lparr>rw_stream = \<lparr>st_recvq = [Inr (RpcStreamPacket_Data [9, 8, 7])], st_sendq = [],
                    st_closeErr = None, st_sent = [], st_closed = 0\<rparr>,
      rw_buf = []\<rparr> [0, 0]
   = Returns (2, None, [9, 8],
       \<lparr>rw_stream = \<lparr>st_recvq = [], st_sendq = [], st_closeErr = None, st_sent = [], st_closed = 0\<rparr>,
        rw_buf = [7]\<rparr>)"
  using C9_read
    [of "[0, 0]"
        "\<lparr>rw_stream = \<lparr>st_recvq = [Inr (RpcStreamPacket_Data [9, 8, 7])], st_sendq = [],
                        st_closeErr = None, st_sent = [], st_closed = 0\<rparr>,
          rw_buf = []\<rparr>"
        _
        "\<lparr>st_recvq = [], st_sendq = [], st_closeErr = None, st_sent = [], st_closed = 0\<rparr>"
        "[9, 8, 7]"]
  by (simp add: Recv_def)

end
